theory Spec2Isabelle
  imports Complex_Main "HOL-Library.Multiset"
begin

section \<open>QuantPerfector: the problem engine (SM-2, priority scoring, selection)\<close>

text \<open>
  A shallow embedding of \<^verbatim>\<open>engine.js\<close> and of \<^verbatim>\<open>canonicalizeProblemKey\<close> from
  \<^verbatim>\<open>constants.js\<close>.  Conventions of the model:
  \<^item> a finite JavaScript number is an exact rational (\<^typ>\<open>rat\<close>), or an \<^typ>\<open>int\<close> where the
    program only ever stores integers (counters, operands, intervals); rounding error of
    IEEE doubles is not modelled;
  \<^item> the one unguarded division (\<^verbatim>\<open>responseTimeMs / timerLimitMs\<close>) yields a value that
    may be infinite or NaN, as in JavaScript;
  \<^item> a calendar date (\<^verbatim>\<open>YYYY-MM-DD\<close>) is its day number, so that the string comparison of
    two dates is the comparison of day numbers; \<^verbatim>\<open>today()\<close> is a parameter;
  \<^item> \<^verbatim>\<open>Math.random()\<close> is a parameter: the sequence \<open>rnd 0, rnd 1, \<dots>\<close> of the values the
    successive calls return;
  \<^item> the settings, the in-memory pool and the persisted records are parameters.
\<close>

subsection \<open>Data model\<close>

datatype operation = Add | Sub | Mul | Div

fun op_name :: "operation \<Rightarrow> string" where
  "op_name Add = ''add''"
| "op_name Sub = ''sub''"
| "op_name Mul = ''mul''"
| "op_name Div = ''div''"

record ProblemRecord =
  key :: string
  operation :: operation
  operandA :: int
  operandB :: int
  correctAnswer :: int
  easeFactor :: rat
  interval :: int
  repetitions :: int
  nextReviewDate :: "int option"
  totalAttempts :: int
  totalCorrect :: int
  totalTimeMs :: rat
  lastAttemptDate :: "string option"
  lastResponseTimeMs :: "rat option"
  streak :: int
  bestStreak :: int

text \<open>\<^verbatim>\<open>SM2_DEFAULTS\<close> of \<^verbatim>\<open>constants.js\<close>.\<close>

definition EASE_FACTOR :: rat where "EASE_FACTOR = 5 / 2"
definition MIN_EASE :: rat where "MIN_EASE = 13 / 10"
definition MAX_EASE :: rat where "MAX_EASE = 3"
definition INITIAL_INTERVAL :: int where "INITIAL_INTERVAL = 1"
definition SECOND_INTERVAL :: int where "SECOND_INTERVAL = 3"

subsection \<open>JavaScript numbers where the program can leave the finite ones\<close>

datatype jsnum = Fin rat | PosInf | NegInf | NaN

text \<open>\<^verbatim>\<open>x / y\<close> on finite numbers: a zero divisor gives an infinity, or NaN for \<^verbatim>\<open>0 / 0\<close>.\<close>

definition js_div :: "rat \<Rightarrow> rat \<Rightarrow> jsnum" where
  "js_div x y =
     (if y \<noteq> 0 then Fin (x / y)
      else if 0 < x then PosInf
      else if x < 0 then NegInf
      else NaN)"

text \<open>\<^verbatim>\<open>x <= y\<close>: false as soon as one side is NaN.\<close>

fun js_le :: "jsnum \<Rightarrow> jsnum \<Rightarrow> bool" where
  "js_le NaN _ = False"
| "js_le _ NaN = False"
| "js_le NegInf _ = True"
| "js_le _ PosInf = True"
| "js_le (Fin x) (Fin y) = (x \<le> y)"
| "js_le _ _ = False"

text \<open>\<^verbatim>\<open>Math.round\<close>: the nearest integer, a tie going up.\<close>

definition Math_round :: "rat \<Rightarrow> int" where
  "Math_round x = \<lfloor>x + 1 / 2\<rfloor>"

subsection \<open>The SM-2 memory model\<close>

definition gradeResponse :: "bool \<Rightarrow> rat \<Rightarrow> rat \<Rightarrow> bool \<Rightarrow> int" where
  "gradeResponse isCorrect responseTimeMs timerLimitMs timedOut =
     (if timedOut then 0
      else if \<not> isCorrect then 1
      else let ratio = js_div responseTimeMs timerLimitMs in
        if js_le ratio (Fin (1 / 4)) then 5
        else if js_le ratio (Fin (1 / 2)) then 4
        else 3)"

definition addDays :: "int \<Rightarrow> int \<Rightarrow> int" where
  "addDays date days = date + days"

definition updateSM2 :: "int \<Rightarrow> ProblemRecord \<Rightarrow> int \<Rightarrow> ProblemRecord" where
  "updateSM2 today record quality =
     (let r1 = (if 3 \<le> quality then
                  (let r0 = (if repetitions record = 0 then record\<lparr>interval := INITIAL_INTERVAL\<rparr>
                             else if repetitions record = 1 then record\<lparr>interval := SECOND_INTERVAL\<rparr>
                             else record\<lparr>interval :=
                                    Math_round (of_int (interval record) * easeFactor record)\<rparr>)
                   in r0\<lparr>repetitions := repetitions r0 + 1\<rparr>)
                else record\<lparr>repetitions := 0, interval := 0\<rparr>);
          r2 = r1\<lparr>easeFactor := easeFactor r1 +
                 (1 / 10 - of_int (5 - quality) * (8 / 100 + of_int (5 - quality) * (2 / 100)))\<rparr>;
          r3 = r2\<lparr>easeFactor := max MIN_EASE (min MAX_EASE (easeFactor r2))\<rparr>
      in r3\<lparr>nextReviewDate := Some (addDays today (interval r3))\<rparr>)"

text \<open>
  The persisted records (\<^verbatim>\<open>problemRecords\<close> of the storage layer): an object whose keys
  keep their insertion order, so an association list; \<^verbatim>\<open>saveProblemRecord\<close> overwrites
  the entry of a key in place or appends a new one.
\<close>

type_synonym store = "(string \<times> ProblemRecord) list"

fun saveProblemRecord :: "string \<Rightarrow> ProblemRecord \<Rightarrow> store \<Rightarrow> store" where
  "saveProblemRecord k r [] = [(k, r)]"
| "saveProblemRecord k r (p # ps) =
     (if fst p = k then (k, r) # ps else p # saveProblemRecord k r ps)"

text \<open>\<open>now\<close> is the timestamp \<^verbatim>\<open>new Date().toISOString()\<close> of the call.\<close>

definition recordAttempt ::
  "store \<Rightarrow> int \<Rightarrow> string \<Rightarrow> ProblemRecord \<Rightarrow> bool \<Rightarrow> rat \<Rightarrow> rat \<Rightarrow> bool
     \<Rightarrow> int \<times> ProblemRecord \<times> store" where
  "recordAttempt st today now record isCorrect responseTimeMs timerLimitMs timedOut =
     (let quality = gradeResponse isCorrect responseTimeMs timerLimitMs timedOut;
          r1 = record\<lparr>totalAttempts := totalAttempts record + 1,
                      totalTimeMs := totalTimeMs record + responseTimeMs,
                      lastAttemptDate := Some now,
                      lastResponseTimeMs := Some responseTimeMs\<rparr>;
          r2 = (if isCorrect then
                  (let r = r1\<lparr>totalCorrect := totalCorrect r1 + 1, streak := streak r1 + 1\<rparr>
                   in if bestStreak r < streak r then r\<lparr>bestStreak := streak r\<rparr> else r)
                else r1\<lparr>streak := 0\<rparr>);
          r3 = updateSM2 today r2 quality
      in (quality, r3, saveProblemRecord (key r3) r3 st))"

text \<open>The invariant of a problem record.\<close>

definition record_inv :: "ProblemRecord \<Rightarrow> bool" where
  "record_inv r \<longleftrightarrow>
     MIN_EASE \<le> easeFactor r \<and> easeFactor r \<le> MAX_EASE \<and>
     totalCorrect r \<le> totalAttempts r \<and> 0 \<le> interval r"

subsection \<open>Problem keys (\<^verbatim>\<open>constants.js\<close>)\<close>

text \<open>
  How a template literal prints an integer: decimal digits, most significant first, with a
  leading minus sign for a negative number.
\<close>

definition digit_char :: "nat \<Rightarrow> char" where
  "digit_char d = char_of (48 + d)"

fun show_nat :: "nat \<Rightarrow> string" where
  "show_nat n = (if n < 10 then [digit_char n] else show_nat (n div 10) @ [digit_char (n mod 10)])"

declare show_nat.simps [simp del]

definition show_int :: "int \<Rightarrow> string" where
  "show_int i = (if i < 0 then CHR ''-'' # show_nat (nat (- i)) else show_nat (nat i))"

definition canonicalizeProblemKey :: "string \<Rightarrow> int \<Rightarrow> int \<Rightarrow> string" where
  "canonicalizeProblemKey opn a b =
     (if opn = ''add'' \<or> opn = ''mul'' then
        (let lo = min a b; hi = max a b
         in opn @ '':'' @ show_int lo @ ''x'' @ show_int hi)
      else opn @ '':'' @ show_int a @ ''x'' @ show_int b)"

subsection \<open>Settings and the storage layer's record constructor\<close>

record OpRange =
  minA :: int
  maxA :: int
  minB :: int
  maxB :: int
  enabled :: bool

record Settings =
  timerSeconds :: int
  operationRanges :: "operation \<Rightarrow> OpRange"

text \<open>
  \<^verbatim>\<open>Object.keys(settings.operationRanges).filter(op => settings.operationRanges[op].enabled)\<close>;
  the keys are the four operations, in the order of \<^verbatim>\<open>DEFAULT_SETTINGS\<close>.
\<close>

definition enabledOps :: "Settings \<Rightarrow> operation list" where
  "enabledOps settings = filter (\<lambda>opn. enabled (operationRanges settings opn)) [Add, Sub, Mul, Div]"

definition createProblemRecord ::
  "string \<Rightarrow> operation \<Rightarrow> int \<Rightarrow> int \<Rightarrow> int \<Rightarrow> ProblemRecord" where
  "createProblemRecord k opn a b answer =
     \<lparr>key = k, operation = opn, operandA = a, operandB = b, correctAnswer = answer,
      easeFactor = EASE_FACTOR, interval = 0, repetitions = 0, nextReviewDate = None,
      totalAttempts = 0, totalCorrect = 0, totalTimeMs = 0, lastAttemptDate = None,
      lastResponseTimeMs = None, streak = 0, bestStreak = 0\<rparr>"

subsection \<open>On-the-fly problem generation\<close>

record Problem =
  p_operation :: operation
  p_a :: int
  p_b :: int
  p_answer :: int
  p_key :: string

text \<open>\<^verbatim>\<open>randInt(min, max)\<close>, with the value \<open>u\<close> that \<^verbatim>\<open>Math.random()\<close> returns.\<close>

definition randInt :: "int \<Rightarrow> int \<Rightarrow> rat \<Rightarrow> int" where
  "randInt lo hi u = \<lfloor>u * of_int (hi - lo + 1)\<rfloor> + lo"

text \<open>
  The subtraction case calls itself again when both draws are equal, with the random
  values that follow; a call that resamples forever has the value \<open>None\<close>.
\<close>

partial_function (option) generateRandomProblem ::
  "Settings \<Rightarrow> operation \<Rightarrow> (nat \<Rightarrow> rat) \<Rightarrow> Problem option" where
  "generateRandomProblem settings opn rnd =
     (let rg = operationRanges settings opn;
          a = randInt (minA rg) (maxA rg) (rnd 0);
          b = randInt (minB rg) (maxB rg) (rnd 1)
      in case opn of
           Add \<Rightarrow> Some \<lparr>p_operation = opn, p_a = a, p_b = b, p_answer = a + b,
                         p_key = canonicalizeProblemKey ''add'' a b\<rparr>
         | Sub \<Rightarrow>
             (let big = max a b; small = min a b
              in if big = small then generateRandomProblem settings Sub (\<lambda>n. rnd (n + 2))
                 else Some \<lparr>p_operation = opn, p_a = big, p_b = small, p_answer = big - small,
                             p_key = canonicalizeProblemKey ''sub'' big small\<rparr>)
         | Mul \<Rightarrow> Some \<lparr>p_operation = opn, p_a = a, p_b = b, p_answer = a * b,
                         p_key = canonicalizeProblemKey ''mul'' a b\<rparr>
         | Div \<Rightarrow>
             (let divisor = randInt (minB rg) (maxB rg) (rnd 2);
                  quotient = randInt (minA rg) (maxA rg) (rnd 3);
                  dividend = divisor * quotient
              in Some \<lparr>p_operation = opn, p_a = dividend, p_b = divisor, p_answer = quotient,
                        p_key = canonicalizeProblemKey ''div'' dividend divisor\<rparr>))"

declare generateRandomProblem.simps [code]

text \<open>
  The resampling of the subtraction case ends as soon as one pair of draws gives two
  different operands: \<open>resample_ends settings rnd\<close> says that the sequence \<open>rnd\<close> has such
  a pair.
\<close>

definition resample_ends :: "Settings \<Rightarrow> (nat \<Rightarrow> rat) \<Rightarrow> bool" where
  "resample_ends settings rnd \<longleftrightarrow>
     (\<exists>k. randInt (minA (operationRanges settings Sub)) (maxA (operationRanges settings Sub))
            (rnd (2 * k))
          \<noteq> randInt (minB (operationRanges settings Sub)) (maxB (operationRanges settings Sub))
              (rnd (2 * k + 1)))"

subsection \<open>Priority scoring\<close>

record Attempt =
  problemKey :: string
  a_operation :: operation
  isCorrect :: bool

text \<open>
  The backwards search of factor 5: \<open>lastIdxLoop atts k n\<close> looks at the indices
  \<open>n - 1, \<dots>, 0\<close> in this order and stops at the first attempt on the problem \<open>k\<close>;
  \<open>-1\<close> when there is none.
\<close>

fun lastIdxLoop :: "Attempt list \<Rightarrow> string \<Rightarrow> nat \<Rightarrow> int" where
  "lastIdxLoop atts k 0 = - 1"
| "lastIdxLoop atts k (Suc i) =
     (if problemKey (atts ! i) = k then int i else lastIdxLoop atts k i)"

definition calculatePriority :: "int \<Rightarrow> ProblemRecord \<Rightarrow> Attempt list \<Rightarrow> int \<Rightarrow> rat" where
  "calculatePriority today record sessionAttempts totalSessionProblems =
     (let score0 = 50;
          score1 = (case nextReviewDate record of
                      None \<Rightarrow> score0 + 20
                    | Some due \<Rightarrow>
                        if due \<le> today then
                          (let overdueDays = today - due
                           in score0 + of_int (min 30 (10 + overdueDays * 5)))
                        else score0);
          score2 = (if 0 < totalAttempts record then
                      (let accuracy = of_int (totalCorrect record) / of_int (totalAttempts record)
                       in score1 + (1 - accuracy) * 40)
                    else score1);
          score3 = score2 + (MAX_EASE - easeFactor record) * 10;
          sessionWrong = length (filter (\<lambda>a. problemKey a = key record \<and> \<not> isCorrect a)
                                   sessionAttempts);
          score4 = score3 + of_nat sessionWrong * 15;
          score5 = (if 0 < length sessionAttempts then
                      (let lastIdx = lastIdxLoop sessionAttempts (key record) (length sessionAttempts)
                       in if 0 \<le> lastIdx then
                            (let problemsSince = totalSessionProblems - lastIdx - 1
                             in if problemsSince < 5 then score4 - of_int ((5 - problemsSince) * 20)
                                else score4)
                          else score4)
                    else score4);
          score6 = (if 0 < totalAttempts record then
                      (let avgTime = totalTimeMs record / of_int (totalAttempts record)
                       in if 7000 < avgTime then score5 + 10 else score5)
                    else score5)
      in max 0 score6)"

text \<open>
  The session driver (\<^verbatim>\<open>processAnswer\<close>) calls \<^verbatim>\<open>recordAttempt\<close> on the record of the
  problem and then appends the attempt, with the same key and the same \<open>isCorrect\<close>, to
  the session's attempts.  So a record has counted every session attempt on its problem,
  and every wrong one among them as an attempt that was not correct.
\<close>

definition history_consistent :: "ProblemRecord \<Rightarrow> Attempt list \<Rightarrow> bool" where
  "history_consistent r atts \<longleftrightarrow>
     int (length (filter (\<lambda>a. problemKey a = key r) atts)) \<le> totalAttempts r \<and>
     int (length (filter (\<lambda>a. problemKey a = key r \<and> \<not> isCorrect a) atts))
       \<le> totalAttempts r - totalCorrect r"

subsection \<open>Problem selection\<close>

record Scored =
  s_record :: ProblemRecord
  score :: rat

text \<open>
  The candidates of \<^verbatim>\<open>selectNextProblem\<close>: the in-memory pool, each record replaced by
  its persisted state when there is one, restricted to the enabled operations.
\<close>

definition poolCandidates :: "Settings \<Rightarrow> ProblemRecord list \<Rightarrow> store \<Rightarrow> ProblemRecord list" where
  "poolCandidates settings currentPool persisted =
     filter (\<lambda>r. operation r \<in> set (enabledOps settings))
       (map (\<lambda>r. case map_of persisted (key r) of Some p \<Rightarrow> p | None \<Rightarrow> r) currentPool)"

text \<open>Phase-based filtering.\<close>

definition phaseFilter :: "string \<Rightarrow> ProblemRecord list \<Rightarrow> ProblemRecord list" where
  "phaseFilter phase candidates =
     (if phase = ''warmup'' then
        (let easy = filter (\<lambda>r. 23 / 10 \<le> easeFactor r \<or> totalAttempts r = 0) candidates
         in if 5 \<le> length easy then easy else candidates)
      else if phase = ''challenge'' then
        (let hard = filter (\<lambda>r.
               if totalAttempts r = 0 then False
               else (let acc = of_int (totalCorrect r) / of_int (totalAttempts r)
                     in easeFactor r < 2 \<or> acc < (7 / 10 :: rat))) candidates
         in if 3 \<le> length hard then hard else candidates)
      else candidates)"

definition applyInterleaving :: "Scored list \<Rightarrow> Attempt list \<Rightarrow> Scored list" where
  "applyInterleaving scored sessionAttempts =
     (if length sessionAttempts = 0 then scored
      else let last2 = drop (length sessionAttempts - 2) sessionAttempts in
        if length last2 = 2 \<and> a_operation (last2 ! 0) = a_operation (last2 ! 1) then
          (let blocked = a_operation (last2 ! 0);
               filtered = filter (\<lambda>s. operation (s_record s) \<noteq> blocked) scored
           in if 0 < length filtered then filtered else scored)
        else if 1 \<le> length sessionAttempts then
          (let lastOp = a_operation (sessionAttempts ! (length sessionAttempts - 1))
           in map (\<lambda>s. if operation (s_record s) = lastOp then s\<lparr>score := score s * (1 / 2)\<rparr>
                        else s) scored)
        else scored)"

text \<open>
  \<open>counts\<close> has an entry for the enabled operations only; for any other operation the
  lookup is \<^verbatim>\<open>undefined\<close>, both comparisons with \<^verbatim>\<open>NaN\<close> fail and the item is kept as it
  is.  Where \<open>counts\<close> has an entry, \<open>enabledOps\<close> is not empty.
\<close>

definition balanceOperations :: "Scored list \<Rightarrow> Attempt list \<Rightarrow> operation list \<Rightarrow> Scored list" where
  "balanceOperations scored sessionAttempts enabled_ops =
     (if length sessionAttempts < 4 then scored
      else let counts = (\<lambda>opn. if opn \<in> set enabled_ops
                                 then Some (length (filter (\<lambda>a. a_operation a = opn) sessionAttempts))
                                 else None);
               total = length sessionAttempts;
               expected = (1 :: rat) / of_nat (length enabled_ops)
           in map (\<lambda>s. case counts (operation (s_record s)) of
                          None \<Rightarrow> s
                        | Some c \<Rightarrow>
                            (let actual = of_nat c / of_nat total
                             in if actual < expected * (7 / 10) then s\<lparr>score := score s * (3 / 2)\<rparr>
                                else if expected * (13 / 10) < actual then s\<lparr>score := score s * (6 / 10)\<rparr>
                                else s)) scored)"

text \<open>
  \<^verbatim>\<open>weightedRandom\<close>: \<open>u\<close> is the value of \<^verbatim>\<open>Math.random()\<close>.  On an empty list the source
  returns \<^verbatim>\<open>undefined\<close> (\<open>None\<close>).
\<close>

fun weightedLoop :: "rat \<Rightarrow> Scored list \<Rightarrow> Scored option" where
  "weightedLoop r [] = None"
| "weightedLoop r (item # items) =
     (let r' = r - max 1 (score item) in if r' \<le> 0 then Some item else weightedLoop r' items)"

definition weightedRandom :: "rat \<Rightarrow> Scored list \<Rightarrow> Scored option" where
  "weightedRandom u items =
     (let totalWeight = foldl (\<lambda>sum item. sum + max 1 (score item)) 0 items;
          r = u * totalWeight
      in case weightedLoop r items of
           Some item \<Rightarrow> Some item
         | None \<Rightarrow> if items = [] then None else Some (last items))"

text \<open>
  Lines 254--283 of \<^verbatim>\<open>selectNextProblem\<close>: phase filter, scoring, interleaving, balancing,
  the (stable) sort by decreasing score and the cut to the best ten.  The result is the
  list handed to \<^verbatim>\<open>weightedRandom\<close>.
\<close>

definition scoreAll :: "int \<Rightarrow> ProblemRecord list \<Rightarrow> Attempt list \<Rightarrow> Scored list" where
  "scoreAll today candidates sessionAttempts =
     map (\<lambda>r. \<lparr>s_record = r,
                score = calculatePriority today r sessionAttempts (int (length sessionAttempts))\<rparr>)
       candidates"

definition topCandidates ::
  "Settings \<Rightarrow> int \<Rightarrow> ProblemRecord list \<Rightarrow> Attempt list \<Rightarrow> string \<Rightarrow> Scored list" where
  "topCandidates settings today candidates sessionAttempts phase =
     (let scored = scoreAll today (phaseFilter phase candidates) sessionAttempts;
          interleaved = applyInterleaving scored sessionAttempts;
          balanced = balanceOperations interleaved sessionAttempts (enabledOps settings);
          sorted_items = sort_key (\<lambda>s. - score s) balanced
      in take (min 10 (length sorted_items)) sorted_items)"

text \<open>
  What a call of \<^verbatim>\<open>selectNextProblem\<close> yields: \<open>Some Null\<close> for \<^verbatim>\<open>null\<close>, \<open>Some (Prob p)\<close>
  for a problem, and \<open>None\<close> when the call returns nothing (endless resampling in
  \<^verbatim>\<open>generateRandomProblem\<close>, or a \<^verbatim>\<open>TypeError\<close> on an \<^verbatim>\<open>undefined\<close> value).
\<close>

datatype outcome = Null | Prob Problem

definition selectNextProblem ::
  "Settings \<Rightarrow> ProblemRecord list \<Rightarrow> store \<Rightarrow> int \<Rightarrow> (nat \<Rightarrow> rat) \<Rightarrow> Attempt list \<Rightarrow> string
     \<Rightarrow> outcome option" where
  "selectNextProblem settings currentPool persisted today rnd sessionAttempts phase =
     (let enabled_ops = enabledOps settings in
      if length enabled_ops = 0 then Some Null
      else let candidates = poolCandidates settings currentPool persisted in
        if length candidates = 0 then
          (let i = \<lfloor>rnd 0 * of_nat (length enabled_ops)\<rfloor>
           in if 0 \<le> i \<and> i < int (length enabled_ops)
              then map_option Prob
                     (generateRandomProblem settings (enabled_ops ! nat i) (\<lambda>n. rnd (n + 1)))
              else None)
        else
          (case weightedRandom (rnd 0)
                  (topCandidates settings today candidates sessionAttempts phase) of
             None \<Rightarrow> None
           | Some selected \<Rightarrow>
               Some (Prob \<lparr>p_operation = operation (s_record selected),
                           p_a = operandA (s_record selected),
                           p_b = operandB (s_record selected),
                           p_answer = correctAnswer (s_record selected),
                           p_key = key (s_record selected)\<rparr>)))"

subsection \<open>Mistake drill\<close>

definition accuracy_of :: "ProblemRecord \<Rightarrow> rat" where
  "accuracy_of r = of_int (totalCorrect r) / of_int (totalAttempts r)"

text \<open>
  \<^verbatim>\<open>Object.values(allRecords)\<close> lists the records in the order of the store; the sort is
  stable.
\<close>

definition getDrillProblems :: "Settings \<Rightarrow> store \<Rightarrow> ProblemRecord list" where
  "getDrillProblems settings allRecords =
     sort_key accuracy_of
       (filter (\<lambda>r.
          if operation r \<notin> set (enabledOps settings) then False
          else if totalAttempts r < 2 then False
          else (let acc = of_int (totalCorrect r) / of_int (totalAttempts r)
                in acc < (7 / 10 :: rat) \<or> easeFactor r < 18 / 10))
        (map snd allRecords))"

subsection \<open>Sample data\<close>

text \<open>
  The record of the specification's scenario: two successful repetitions, an interval of
  ten days and the default ease.
\<close>

definition sample_record :: ProblemRecord where
  "sample_record =
     \<lparr>key = ''mul:3x7'', operation = Mul, operandA = 3, operandB = 7, correctAnswer = 21,
      easeFactor = 5 / 2, interval = 10, repetitions = 2, nextReviewDate = Some 100,
      totalAttempts = 2, totalCorrect = 2, totalTimeMs = 4000, lastAttemptDate = None,
      lastResponseTimeMs = Some 2000, streak = 2, bestStreak = 2\<rparr>"

text \<open>\<^verbatim>\<open>DEFAULT_SETTINGS\<close> of \<^verbatim>\<open>constants.js\<close> (timer and operand ranges).\<close>

definition DEFAULT_SETTINGS :: Settings where
  "DEFAULT_SETTINGS =
     \<lparr>timerSeconds = 10,
      operationRanges = (\<lambda>opn. case opn of
          Add \<Rightarrow> \<lparr>minA = 10, maxA = 99, minB = 10, maxB = 99, enabled = True\<rparr>
        | Sub \<Rightarrow> \<lparr>minA = 20, maxA = 99, minB = 10, maxB = 99, enabled = True\<rparr>
        | Mul \<Rightarrow> \<lparr>minA = 2, maxA = 12, minB = 2, maxB = 12, enabled = True\<rparr>
        | Div \<Rightarrow> \<lparr>minA = 2, maxA = 12, minB = 2, maxB = 12, enabled = True\<rparr>)\<rparr>"

text \<open>A random source that always returns 0.25, and one that always returns 0.\<close>

definition quarter_rnd :: "nat \<Rightarrow> rat" where
  "quarter_rnd n = 1 / 4"

definition cx_rnd :: "nat \<Rightarrow> rat" where
  "cx_rnd n = 0"

text \<open>
  A learner who practises additions of 10 and 10 and the multiplications of 2 by 2 to 8
  only.  The pool is what \<^verbatim>\<open>buildProblemPool\<close> builds for these settings: three samples
  of the one addition, then the seven multiplications.
\<close>

definition cx_settings :: Settings where
  "cx_settings =
     \<lparr>timerSeconds = 10,
      operationRanges = (\<lambda>opn. case opn of
          Add \<Rightarrow> \<lparr>minA = 10, maxA = 10, minB = 10, maxB = 10, enabled = True\<rparr>
        | Sub \<Rightarrow> \<lparr>minA = 20, maxA = 99, minB = 10, maxB = 99, enabled = False\<rparr>
        | Mul \<Rightarrow> \<lparr>minA = 2, maxA = 2, minB = 2, maxB = 8, enabled = True\<rparr>
        | Div \<Rightarrow> \<lparr>minA = 2, maxA = 12, minB = 2, maxB = 12, enabled = False\<rparr>)\<rparr>"

definition cx_pool :: "ProblemRecord list" where
  "cx_pool =
     [createProblemRecord ''add:10x10'' Add 10 10 20,
      createProblemRecord ''add:10x10'' Add 10 10 20,
      createProblemRecord ''add:10x10'' Add 10 10 20,
      createProblemRecord ''mul:2x2'' Mul 2 2 4,
      createProblemRecord ''mul:2x3'' Mul 2 3 6,
      createProblemRecord ''mul:2x4'' Mul 2 4 8,
      createProblemRecord ''mul:2x5'' Mul 2 5 10,
      createProblemRecord ''mul:2x6'' Mul 2 6 12,
      createProblemRecord ''mul:2x7'' Mul 2 7 14,
      createProblemRecord ''mul:2x8'' Mul 2 8 16]"

text \<open>
  The addition was answered wrongly three times the day before (day 19999); the first two
  multiplications were answered correctly and quickly today (day 20000), as the first two
  problems of the session.
\<close>

definition cx_add_record :: ProblemRecord where
  "cx_add_record =
     \<lparr>key = ''add:10x10'', operation = Add, operandA = 10, operandB = 10, correctAnswer = 20,
      easeFactor = 13 / 10, interval = 0, repetitions = 0, nextReviewDate = Some 19999,
      totalAttempts = 3, totalCorrect = 0, totalTimeMs = 15000,
      lastAttemptDate = Some ''2024-10-03T10:00:00.000Z'', lastResponseTimeMs = Some 5000,
      streak = 0, bestStreak = 0\<rparr>"

definition cx_mul_done :: "int \<Rightarrow> int \<Rightarrow> string \<Rightarrow> ProblemRecord" where
  "cx_mul_done a b k =
     \<lparr>key = k, operation = Mul, operandA = a, operandB = b, correctAnswer = a * b,
      easeFactor = 26 / 10, interval = 1, repetitions = 1, nextReviewDate = Some 20001,
      totalAttempts = 1, totalCorrect = 1, totalTimeMs = 2000,
      lastAttemptDate = Some ''2024-10-04T10:00:00.000Z'', lastResponseTimeMs = Some 2000,
      streak = 1, bestStreak = 1\<rparr>"

definition cx_store :: store where
  "cx_store =
     [(''add:10x10'', cx_add_record),
      (''mul:2x2'', cx_mul_done 2 2 ''mul:2x2''),
      (''mul:2x3'', cx_mul_done 2 3 ''mul:2x3'')]"

definition cx_attempts :: "Attempt list" where
  "cx_attempts =
     [\<lparr>problemKey = ''mul:2x2'', a_operation = Mul, isCorrect = True\<rparr>,
      \<lparr>problemKey = ''mul:2x3'', a_operation = Mul, isCorrect = True\<rparr>]"

text \<open>A longer session on the same data: two more attempts, the last two on different operations.\<close>

definition mixed_attempts :: "Attempt list" where
  "mixed_attempts =
     cx_attempts @
     [\<lparr>problemKey = ''add:10x10'', a_operation = Add, isCorrect = False\<rparr>,
      \<lparr>problemKey = ''mul:2x2'', a_operation = Mul, isCorrect = True\<rparr>]"

text \<open>A fully mastered problem that is due tomorrow (day 20001), and a record with one wrong attempt.\<close>

definition mastered_record :: ProblemRecord where
  "mastered_record =
     \<lparr>key = ''mul:2x8'', operation = Mul, operandA = 2, operandB = 8, correctAnswer = 16,
      easeFactor = 3, interval = 30, repetitions = 10, nextReviewDate = Some 20001,
      totalAttempts = 10, totalCorrect = 10, totalTimeMs = 80000,
      lastAttemptDate = Some ''2024-09-04T10:00:00.000Z'', lastResponseTimeMs = Some 8000,
      streak = 10, bestStreak = 10\<rparr>"

definition one_miss_record :: ProblemRecord where
  "one_miss_record =
     \<lparr>key = ''mul:2x7'', operation = Mul, operandA = 2, operandB = 7, correctAnswer = 14,
      easeFactor = 49 / 25, interval = 0, repetitions = 0, nextReviewDate = Some 19999,
      totalAttempts = 1, totalCorrect = 0, totalTimeMs = 4000,
      lastAttemptDate = Some ''2024-10-03T10:00:00.000Z'', lastResponseTimeMs = Some 4000,
      streak = 0, bestStreak = 0\<rparr>"

definition half_right_record :: ProblemRecord where
  "half_right_record =
     \<lparr>key = ''mul:2x6'', operation = Mul, operandA = 2, operandB = 6, correctAnswer = 12,
      easeFactor = 2, interval = 1, repetitions = 1, nextReviewDate = Some 20000,
      totalAttempts = 4, totalCorrect = 2, totalTimeMs = 16000,
      lastAttemptDate = Some ''2024-10-03T10:00:00.000Z'', lastResponseTimeMs = Some 4000,
      streak = 1, bestStreak = 1\<rparr>"

definition drill_store :: store where
  "drill_store =
     [(''mul:2x7'', one_miss_record),
      (''mul:2x6'', half_right_record),
      (''add:10x10'', cx_add_record),
      (''mul:2x8'', mastered_record)]"


section \<open>Properties\<close>

subsection \<open>The memory model\<close>



text \<open>
  Claim C2.  \<^verbatim>\<open>gradeResponse\<close> returns 0 when the response timed out, whether it was
  correct or not; 1 when it did not time out and was wrong; and for a correct response in
  time, with \<open>ratio = responseTimeMs / timerLimitMs\<close>, it returns 5 when \<open>ratio \<le> 0.25\<close>,
  4 when \<open>0.25 < ratio \<le> 0.50\<close> and 3 otherwise.  Hence for correct responses in time the
  grade does not increase when the ratio increases.
\<close>

theorem gradeResponse_table:
  "gradeResponse c t tlim True = 0 \<and>
   gradeResponse False t tlim False = 1 \<and>
   gradeResponse True t tlim False =
     (if js_le (js_div t tlim) (Fin (1 / 4)) then 5
      else if \<not> js_le (js_div t tlim) (Fin (1 / 4)) \<and> js_le (js_div t tlim) (Fin (1 / 2)) then 4
      else 3) \<and>
   (js_le (js_div t tlim) (js_div t' tlim') \<longrightarrow>
      gradeResponse True t' tlim' False \<le> gradeResponse True t tlim False)"
proof -
  have mono: "js_le (js_div t tlim) (js_div t' tlim') \<longrightarrow>
      gradeResponse True t' tlim' False \<le> gradeResponse True t tlim False"
    by (cases "js_div t tlim"; cases "js_div t' tlim'") (simp_all add: gradeResponse_def Let_def)
  show ?thesis
    using mono by (simp add: gradeResponse_def Let_def)
qed

theorem gradeResponse_table_witness:
  "js_le (js_div 1000 10000) (js_div 3000 10000) \<and>
   gradeResponse True 3000 10000 False = 4 \<and>
   gradeResponse True 1000 10000 False = 5 \<and>
   gradeResponse True 1000 10000 True = 0 \<and>
   gradeResponse False 1000 10000 False = 1"
  using gradeResponse_table [of True 1000 10000 3000 10000]
  by (simp add: gradeResponse_def js_div_def)

lemma updateSM2_inv: "record_inv r \<Longrightarrow> record_inv (updateSM2 today r q)"
  by (simp add: record_inv_def updateSM2_def Let_def MIN_EASE_def MAX_EASE_def
        Math_round_def INITIAL_INTERVAL_def SECOND_INTERVAL_def)

text \<open>
  Claim C3.  The invariant of a problem record (ease factor between 1.3 and 3.0, no more
  correct attempts than attempts, a non-negative interval) is preserved by
  \<^verbatim>\<open>recordAttempt\<close>, whatever the flags and the times are, and by \<^verbatim>\<open>updateSM2\<close> for every
  quality (in particular for 0, 1, 3, 4 and 5).
\<close>

theorem record_inv_preserved:
  "record_inv r \<Longrightarrow>
   record_inv (fst (snd (recordAttempt st today now r c t tlim tout))) \<and>
   record_inv (updateSM2 today r q)"
proof -
  assume inv: "record_inv r"
  have "record_inv (fst (snd (recordAttempt st today now r c t tlim tout)))"
    unfolding recordAttempt_def Let_def fst_conv snd_conv
    using inv by (intro updateSM2_inv) (simp add: record_inv_def)
  with updateSM2_inv [OF inv] show ?thesis by simp
qed

theorem record_inv_preserved_witness:
  "record_inv sample_record \<and>
   record_inv (fst (snd (recordAttempt [] 100 ''2026-01-01T00:00:00.000Z'' sample_record
                           True 1000 10000 False))) \<and>
   record_inv (updateSM2 100 sample_record 0)"
proof -
  have h: "record_inv sample_record"
    by (simp add: record_inv_def sample_record_def MIN_EASE_def MAX_EASE_def)
  show ?thesis
    using h record_inv_preserved [OF h] by simp
qed

subsection \<open>Priority scoring and the selection pipeline\<close>

lemma enabledOps_iff:
  "opn \<in> set (enabledOps settings) \<longleftrightarrow> enabled (operationRanges settings opn)"
  by (cases opn) (auto simp: enabledOps_def)

lemma calculatePriority_nonneg: "0 \<le> calculatePriority today r atts n"
  by (simp add: calculatePriority_def Let_def)

lemma scoreAll_nonneg: "\<forall>s \<in> set (scoreAll today cs atts). 0 \<le> score s"
  by (auto simp: scoreAll_def calculatePriority_nonneg)

lemma applyInterleaving_nonneg:
  "\<forall>s \<in> set scored. 0 \<le> score s \<Longrightarrow>
   \<forall>s \<in> set (applyInterleaving scored atts). 0 \<le> score s"
  by (auto simp: applyInterleaving_def Let_def)

lemma balanceOperations_nonneg:
  "\<forall>s \<in> set scored. 0 \<le> score s \<Longrightarrow>
   \<forall>s \<in> set (balanceOperations scored atts ops). 0 \<le> score s"
  by (auto simp: balanceOperations_def Let_def split: option.splits)

lemma topCandidates_eq:
  "topCandidates settings today candidates atts phase =
     take (min 10 (length (balanceOperations
             (applyInterleaving (scoreAll today (phaseFilter phase candidates) atts) atts)
             atts (enabledOps settings))))
       (sort_key (\<lambda>s. - score s)
          (balanceOperations
             (applyInterleaving (scoreAll today (phaseFilter phase candidates) atts) atts)
             atts (enabledOps settings)))"
  by (simp add: topCandidates_def Let_def)

lemma topCandidates_subset:
  "set (topCandidates settings today candidates atts phase) \<subseteq>
   set (balanceOperations
          (applyInterleaving (scoreAll today (phaseFilter phase candidates) atts) atts)
          atts (enabledOps settings))"
proof -
  let ?bal = "balanceOperations
          (applyInterleaving (scoreAll today (phaseFilter phase candidates) atts) atts)
          atts (enabledOps settings)"
  have "set (take (min 10 (length ?bal)) (sort_key (\<lambda>s. - score s) ?bal))
          \<subseteq> set (sort_key (\<lambda>s. - score s) ?bal)"
    by (rule set_take_subset)
  then show ?thesis by (simp add: topCandidates_eq)
qed

text \<open>
  Claim C4.  \<^verbatim>\<open>calculatePriority\<close> never returns a value below 0, and every score that
  enters the weighted-random pick of \<^verbatim>\<open>selectNextProblem\<close>, that is after the interleaving
  multiplier 0.5 and the balancing multipliers 1.5 and 0.6 have been applied to the
  clamped scores, is still at least 0.
\<close>

theorem priority_never_negative:
  "0 \<le> calculatePriority today r atts n \<and>
   (\<forall>s \<in> set (topCandidates settings today candidates atts phase). 0 \<le> score s)"
proof -
  have "\<forall>s \<in> set (balanceOperations
          (applyInterleaving (scoreAll today (phaseFilter phase candidates) atts) atts)
          atts (enabledOps settings)). 0 \<le> score s"
    by (intro balanceOperations_nonneg applyInterleaving_nonneg scoreAll_nonneg)
  with topCandidates_subset [of settings today candidates atts phase]
  have "\<forall>s \<in> set (topCandidates settings today candidates atts phase). 0 \<le> score s"
    by blast
  with calculatePriority_nonneg show ?thesis by blast
qed

theorem priority_never_negative_witness:
  "\<lparr>s_record = createProblemRecord ''mul:2x4'' Mul 2 4 8, score = 45 / 2\<rparr>
     \<in> set (topCandidates cx_settings 20000 (poolCandidates cx_settings cx_pool cx_store)
              mixed_attempts ''core'') \<and>
   (0 :: rat) \<le> score \<lparr>s_record = createProblemRecord ''mul:2x4'' Mul 2 4 8, score = 45 / 2\<rparr> \<and>
   0 \<le> calculatePriority 20000 cx_add_record mixed_attempts 4"
proof -
  have mem: "\<lparr>s_record = createProblemRecord ''mul:2x4'' Mul 2 4 8, score = 45 / 2\<rparr>
     \<in> set (topCandidates cx_settings 20000 (poolCandidates cx_settings cx_pool cx_store)
              mixed_attempts ''core'')"
    by code_simp
  from priority_never_negative
    [of 20000 cx_add_record mixed_attempts 4 cx_settings
        "poolCandidates cx_settings cx_pool cx_store" "''core''"]
  have "0 \<le> calculatePriority 20000 cx_add_record mixed_attempts 4"
    and "\<forall>s \<in> set (topCandidates cx_settings 20000 (poolCandidates cx_settings cx_pool cx_store)
              mixed_attempts ''core''). 0 \<le> score s"
    by blast+
  with mem show ?thesis by blast
qed

lemma weightedLoop_mem: "weightedLoop r items = Some s \<Longrightarrow> s \<in> set items"
  by (induction items arbitrary: r) (auto simp: Let_def split: if_splits)

lemma weightedRandom_mem:
  "items \<noteq> [] \<Longrightarrow> \<exists>s \<in> set items. weightedRandom u items = Some s"
  by (auto simp: weightedRandom_def Let_def weightedLoop_mem split: option.splits)

lemma applyInterleaving_blocked:
  assumes "atts = xs @ [a1, a2]" "a_operation a1 = a_operation a2"
    and "\<exists>s \<in> set scored. operation (s_record s) \<noteq> a_operation a2"
  shows "applyInterleaving scored atts =
           filter (\<lambda>s. operation (s_record s) \<noteq> a_operation a2) scored"
proof -
  have "filter (\<lambda>s. operation (s_record s) \<noteq> a_operation a2) scored \<noteq> []"
    using assms(3) by (simp add: filter_empty_conv)
  then show ?thesis
    using assms(1,2) by (simp add: applyInterleaving_def Let_def)
qed

lemma balanceOperations_records:
  "map s_record (balanceOperations scored atts ops) = map s_record scored"
  by (simp add: balanceOperations_def Let_def split: option.splits)

lemma balanceOperations_keeps:
  "\<forall>s \<in> set scored. P (s_record s) \<Longrightarrow>
   \<forall>s \<in> set (balanceOperations scored atts ops). P (s_record s)"
  by (auto simp: balanceOperations_def Let_def split: option.splits)

text \<open>
  Claim C5, as amended.  When the session's last two attempts are on the same operation
  (multiplication in the claim) and a candidate of another operation (an addition, say)
  is left after the phase filter, \<^verbatim>\<open>selectNextProblem\<close> returns a problem, and never one
  of the repeated operation.  In the phase \<open>core\<close>, and in any phase whose filter does not
  apply, the phase filter keeps every candidate.
\<close>

theorem interleaving_forces_switch:
  assumes atts: "atts = xs @ [a1, a2]" and same: "a_operation a1 = a_operation a2"
    and other: "\<exists>r \<in> set (phaseFilter phase (poolCandidates settings pool persisted)).
                  operation r \<noteq> a_operation a2"
  shows "\<exists>p. selectNextProblem settings pool persisted today rnd atts phase = Some (Prob p) \<and>
              p_operation p \<noteq> a_operation a2"
proof -
  let ?cands = "poolCandidates settings pool persisted"
  let ?scored = "scoreAll today (phaseFilter phase ?cands) atts"
  let ?inter = "applyInterleaving ?scored atts"
  let ?bal = "balanceOperations ?inter atts (enabledOps settings)"
  let ?top = "topCandidates settings today ?cands atts phase"
  have sub: "set (phaseFilter phase ?cands) \<subseteq> set ?cands"
    by (auto simp: phaseFilter_def Let_def)
  with other obtain r where r: "r \<in> set ?cands" by blast
  then have cne: "?cands \<noteq> []" by auto
  from r have "operation r \<in> set (enabledOps settings)" by (simp add: poolCandidates_def)
  then have ene: "enabledOps settings \<noteq> []" by auto
  have "\<exists>s \<in> set ?scored. operation (s_record s) \<noteq> a_operation a2"
    using other by (auto simp: scoreAll_def)
  then have inter: "?inter = filter (\<lambda>s. operation (s_record s) \<noteq> a_operation a2) ?scored"
    and ine: "?inter \<noteq> []"
    using applyInterleaving_blocked [OF atts same] by (auto simp: filter_empty_conv)
  have bops: "\<forall>s \<in> set ?bal. operation (s_record s) \<noteq> a_operation a2"
    by (rule balanceOperations_keeps) (simp add: inter)
  have "length ?bal = length ?inter"
    using balanceOperations_records [of ?inter atts "enabledOps settings"] by (metis length_map)
  with ine have bne: "?bal \<noteq> []" by auto
  have "length (sort_key (\<lambda>s. - score s) ?bal) = length ?bal" by simp
  with bne have "sort_key (\<lambda>s. - score s) ?bal \<noteq> []" by (metis length_0_conv)
  with bne have tne: "?top \<noteq> []" by (simp add: topCandidates_eq)
  from weightedRandom_mem [OF tne, of "rnd 0"] obtain s
    where s: "s \<in> set ?top" "weightedRandom (rnd 0) ?top = Some s" by blast
  with topCandidates_subset [of settings today ?cands atts phase] bops
  have "operation (s_record s) \<noteq> a_operation a2" by blast
  with s(2) cne ene show ?thesis
    by (simp add: selectNextProblem_def Let_def)
qed

theorem interleaving_forces_switch_witness:
  "cx_attempts = [] @ [\<lparr>problemKey = ''mul:2x2'', a_operation = Mul, isCorrect = True\<rparr>,
                       \<lparr>problemKey = ''mul:2x3'', a_operation = Mul, isCorrect = True\<rparr>] \<and>
   cx_add_record \<in> set (phaseFilter ''core'' (poolCandidates cx_settings cx_pool cx_store)) \<and>
   operation cx_add_record \<noteq> Mul \<and>
   (\<exists>p. selectNextProblem cx_settings cx_pool cx_store 20000 cx_rnd cx_attempts ''core''
           = Some (Prob p) \<and> p_operation p \<noteq> Mul)"
proof -
  let ?a1 = "\<lparr>problemKey = ''mul:2x2'', a_operation = Mul, isCorrect = True\<rparr>"
  let ?a2 = "\<lparr>problemKey = ''mul:2x3'', a_operation = Mul, isCorrect = True\<rparr>"
  have atts: "cx_attempts = [] @ [?a1, ?a2]" by (simp add: cx_attempts_def)
  have same: "a_operation ?a1 = a_operation ?a2" by simp
  have mem: "cx_add_record \<in> set (phaseFilter ''core'' (poolCandidates cx_settings cx_pool cx_store))"
    by code_simp
  have op: "operation cx_add_record \<noteq> Mul" by (simp add: cx_add_record_def)
  from mem op
  have other: "\<exists>r \<in> set (phaseFilter ''core'' (poolCandidates cx_settings cx_pool cx_store)).
                  operation r \<noteq> a_operation ?a2"
    by auto
  from interleaving_forces_switch [OF atts same other, of 20000 cx_rnd]
  have "\<exists>p. selectNextProblem cx_settings cx_pool cx_store 20000 cx_rnd cx_attempts ''core''
           = Some (Prob p) \<and> p_operation p \<noteq> Mul"
    by simp
  with atts mem op show ?thesis by blast
qed

text \<open>
  The claim as it is stated, for every phase, fails: in the phase \<open>warmup\<close> the phase
  filter comes first and may drop every addition.  Here the session's two attempts were
  multiplications, the candidates hold the addition \<open>add:10x10\<close> and seven
  multiplications, all seven multiplications are easy and the addition is not; the
  multiplication \<open>mul:2x4\<close> is returned.
\<close>

theorem interleaving_warmup_counterexample:
  "a_operation (cx_attempts ! 0) = Mul \<and> a_operation (cx_attempts ! 1) = Mul \<and>
   length cx_attempts = 2 \<and>
   cx_add_record \<in> set (poolCandidates cx_settings cx_pool cx_store) \<and>
   operation cx_add_record = Add \<and>
   cx_mul_done 2 2 ''mul:2x2'' \<in> set (poolCandidates cx_settings cx_pool cx_store) \<and>
   selectNextProblem cx_settings cx_pool cx_store 20000 cx_rnd cx_attempts ''warmup'' =
     Some (Prob \<lparr>p_operation = Mul, p_a = 2, p_b = 4, p_answer = 8, p_key = ''mul:2x4''\<rparr>)"
  by code_simp

lemma lastIdxLoop_none:
  "\<forall>i < n. problemKey (atts ! i) \<noteq> k \<Longrightarrow> lastIdxLoop atts k n = - 1"
  by (induction n) auto

lemma never_seen_priority:
  assumes "totalAttempts n = 0" "nextReviewDate n = None" "history_consistent n atts"
  shows "calculatePriority today n atts k = max 0 (50 + 20 + (MAX_EASE - easeFactor n) * 10)"
proof -
  have "filter (\<lambda>a. problemKey a = key n) atts = []"
    using assms by (simp add: history_consistent_def)
  then have no: "\<forall>a \<in> set atts. problemKey a \<noteq> key n"
    by (simp add: filter_empty_conv)
  then have "\<forall>i < length atts. problemKey (atts ! i) \<noteq> key n" by simp
  then have l: "lastIdxLoop atts (key n) (length atts) = - 1" by (rule lastIdxLoop_none)
  have w: "filter (\<lambda>a. problemKey a = key n \<and> \<not> isCorrect a) atts = []"
    using no by (simp add: filter_empty_conv)
  show ?thesis
    using assms(1,2) by (simp add: calculatePriority_def Let_def l w)
qed

lemma mastered_priority:
  assumes "totalAttempts m = 10" "totalCorrect m = 10" "easeFactor m = 3"
    "nextReviewDate m = Some (today + 1)" "history_consistent m atts"
  shows "calculatePriority today m atts k \<le> 60"
proof -
  have w: "filter (\<lambda>a. problemKey a = key m \<and> \<not> isCorrect a) atts = []"
    using assms by (simp add: history_consistent_def)
  show ?thesis
    using assms(1-4) by (simp add: calculatePriority_def Let_def w MAX_EASE_def)
qed

text \<open>
  Claim C6.  Take a record that was never attempted and has no review date, and a record
  with ten attempts, all correct, ease factor 3.0 and a review date of tomorrow.  For
  every session history consistent with both records, \<^verbatim>\<open>calculatePriority\<close> gives the
  first one the base score with the never-seen bonus of 20 (and its ease term), and a
  score strictly above the second one's.  The first record is a valid problem record:
  its ease factor is at most 3.0.
\<close>

theorem never_seen_beats_mastered:
  assumes "record_inv n" "totalAttempts n = 0" "nextReviewDate n = None"
    and "history_consistent n atts"
    and "totalAttempts m = 10" "totalCorrect m = 10" "easeFactor m = 3"
    and "nextReviewDate m = Some (today + 1)"
    and "history_consistent m atts"
  shows "calculatePriority today n atts k = 50 + 20 + (MAX_EASE - easeFactor n) * 10 \<and>
         calculatePriority today m atts k < calculatePriority today n atts k"
proof -
  have "easeFactor n \<le> MAX_EASE" using assms(1) by (simp add: record_inv_def)
  then have "calculatePriority today n atts k = 50 + 20 + (MAX_EASE - easeFactor n) * 10"
    and "70 \<le> calculatePriority today n atts k"
    using never_seen_priority [OF assms(2,3,4), of today k] by auto
  with mastered_priority [OF assms(5-9), of k] show ?thesis by simp
qed

theorem never_seen_beats_mastered_witness:
  "record_inv (createProblemRecord ''mul:2x4'' Mul 2 4 8) \<and>
   totalAttempts (createProblemRecord ''mul:2x4'' Mul 2 4 8) = 0 \<and>
   nextReviewDate (createProblemRecord ''mul:2x4'' Mul 2 4 8) = None \<and>
   history_consistent (createProblemRecord ''mul:2x4'' Mul 2 4 8) cx_attempts \<and>
   totalAttempts mastered_record = 10 \<and> totalCorrect mastered_record = 10 \<and>
   easeFactor mastered_record = 3 \<and> nextReviewDate mastered_record = Some (20000 + 1) \<and>
   history_consistent mastered_record cx_attempts \<and>
   calculatePriority 20000 (createProblemRecord ''mul:2x4'' Mul 2 4 8) cx_attempts 2 = 75 \<and>
   calculatePriority 20000 mastered_record cx_attempts 2
     < calculatePriority 20000 (createProblemRecord ''mul:2x4'' Mul 2 4 8) cx_attempts 2"
proof -
  let ?n = "createProblemRecord ''mul:2x4'' Mul 2 4 8"
  have h1: "record_inv ?n"
    by (simp add: record_inv_def createProblemRecord_def EASE_FACTOR_def MIN_EASE_def
          MAX_EASE_def)
  have h2: "totalAttempts ?n = 0" and h3: "nextReviewDate ?n = None"
    by (simp_all add: createProblemRecord_def)
  have h4: "history_consistent ?n cx_attempts" by code_simp
  have h5: "totalAttempts mastered_record = 10" and h6: "totalCorrect mastered_record = 10"
    and h7: "easeFactor mastered_record = 3"
    and h8: "nextReviewDate mastered_record = Some (20000 + 1)"
    by (simp_all add: mastered_record_def)
  have h9: "history_consistent mastered_record cx_attempts" by code_simp
  have e: "easeFactor ?n = 5 / 2" by (simp add: createProblemRecord_def EASE_FACTOR_def)
  from never_seen_beats_mastered [OF h1 h2 h3 h4 h5 h6 h7 h8 h9, of 2]
  have "calculatePriority 20000 ?n cx_attempts 2 = 75"
    and "calculatePriority 20000 mastered_record cx_attempts 2
           < calculatePriority 20000 ?n cx_attempts 2"
    by (simp_all add: e MAX_EASE_def)
  with h1 h2 h3 h4 h5 h6 h7 h8 h9 show ?thesis by blast
qed

subsection \<open>Mistake drill\<close>

text \<open>
  Claim C7.  \<^verbatim>\<open>getDrillProblems\<close> returns exactly the records whose operation is enabled,
  with at least two attempts and an accuracy below 0.7 or an ease factor below 1.8, in
  ascending order of accuracy; a record with one attempt is never in the result.
\<close>

theorem getDrillProblems_filter_sorted:
  "mset (getDrillProblems settings allRecords) =
     filter_mset
       (\<lambda>r. enabled (operationRanges settings (operation r)) \<and> 2 \<le> totalAttempts r \<and>
             (of_int (totalCorrect r) / of_int (totalAttempts r) < (7 / 10 :: rat) \<or>
              easeFactor r < 18 / 10))
       (mset (map snd allRecords)) \<and>
   sorted (map (\<lambda>r. of_int (totalCorrect r) / of_int (totalAttempts r) :: rat)
             (getDrillProblems settings allRecords)) \<and>
   (totalAttempts r = 1 \<longrightarrow> r \<notin> set (getDrillProblems settings allRecords))"
proof -
  have exact: "mset (getDrillProblems settings allRecords) =
     filter_mset
       (\<lambda>r. enabled (operationRanges settings (operation r)) \<and> 2 \<le> totalAttempts r \<and>
             (of_int (totalCorrect r) / of_int (totalAttempts r) < (7 / 10 :: rat) \<or>
              easeFactor r < 18 / 10))
       (mset (map snd allRecords))"
    unfolding getDrillProblems_def mset_sort mset_filter
    by (rule filter_mset_cong) (auto simp: enabledOps_iff Let_def)
  have order: "sorted (map (\<lambda>r. of_int (totalCorrect r) / of_int (totalAttempts r) :: rat)
             (getDrillProblems settings allRecords))"
    using sorted_sort_key [of accuracy_of] unfolding getDrillProblems_def accuracy_of_def .
  have single: "totalAttempts r = 1 \<longrightarrow> r \<notin> set (getDrillProblems settings allRecords)"
    by (auto simp: getDrillProblems_def)
  from exact order single show ?thesis by blast
qed

theorem getDrillProblems_filter_sorted_witness:
  "totalAttempts one_miss_record = 1 \<and> totalCorrect one_miss_record = 0 \<and>
   one_miss_record \<in> set (map snd drill_store) \<and>
   one_miss_record \<notin> set (getDrillProblems cx_settings drill_store) \<and>
   getDrillProblems cx_settings drill_store = [cx_add_record, half_right_record]"
proof -
  have h: "totalAttempts one_miss_record = 1" and c: "totalCorrect one_miss_record = 0"
    by (simp_all add: one_miss_record_def)
  have mem: "one_miss_record \<in> set (map snd drill_store)"
    by (simp add: drill_store_def)
  have val: "getDrillProblems cx_settings drill_store = [cx_add_record, half_right_record]"
    by code_simp
  from getDrillProblems_filter_sorted [of cx_settings drill_store one_miss_record] h
  have "one_miss_record \<notin> set (getDrillProblems cx_settings drill_store)" by blast
  with h c mem val show ?thesis by blast
qed

subsection \<open>Problem keys\<close>

lemma digit_char_code: "d < 10 \<Longrightarrow> (of_char (digit_char d) :: nat) = 48 + d"
  by (simp add: digit_char_def)

lemma digit_char_inj: "d < 10 \<Longrightarrow> e < 10 \<Longrightarrow> digit_char d = digit_char e \<Longrightarrow> d = e"
proof -
  assume d: "d < 10" and e: "e < 10" and eq: "digit_char d = digit_char e"
  from eq have "(of_char (digit_char d) :: nat) = of_char (digit_char e)" by (rule arg_cong)
  then have "48 + d = 48 + e" by (simp only: digit_char_code [OF d] digit_char_code [OF e])
  then show "d = e" by (rule add_left_imp_eq)
qed

lemma digit_char_not_x: "d < 10 \<Longrightarrow> digit_char d \<noteq> CHR ''x''"
  using digit_char_code [of d] by auto

lemma digit_char_not_minus: "d < 10 \<Longrightarrow> digit_char d \<noteq> CHR ''-''"
  using digit_char_code [of d] by auto

lemma show_nat_digits: "c \<in> set (show_nat n) \<Longrightarrow> \<exists>d < 10. c = digit_char d"
proof (induction n rule: show_nat.induct)
  case (1 n)
  show ?case
  proof (cases "n < 10")
    case True
    with "1.prems" show ?thesis by (auto simp: show_nat.simps [of n])
  next
    case False
    with "1.prems" have "c \<in> set (show_nat (n div 10)) \<or> c = digit_char (n mod 10)"
      by (auto simp: show_nat.simps [of n])
    then show ?thesis
    proof
      assume "c \<in> set (show_nat (n div 10))"
      with "1.IH" False show ?thesis by simp
    next
      assume "c = digit_char (n mod 10)"
      moreover have "n mod 10 < 10" by simp
      ultimately show ?thesis by blast
    qed
  qed
qed

lemma show_nat_nonempty: "show_nat n \<noteq> []"
  by (subst show_nat.simps) simp

lemma show_nat_inj: "show_nat n = show_nat m \<Longrightarrow> n = m"
proof (induction n arbitrary: m rule: show_nat.induct)
  case (1 n)
  show ?case
  proof (cases "n < 10")
    case n: True
    show ?thesis
    proof (cases "m < 10")
      case True
      with n "1.prems" show ?thesis
        by (simp add: show_nat.simps [of n] show_nat.simps [of m] digit_char_inj)
    next
      case False
      with n "1.prems" show_nat_nonempty [of "m div 10"] show ?thesis
        by (simp add: show_nat.simps [of n] show_nat.simps [of m])
    qed
  next
    case n: False
    show ?thesis
    proof (cases "m < 10")
      case True
      with n "1.prems" show_nat_nonempty [of "n div 10"] show ?thesis
        by (simp add: show_nat.simps [of n] show_nat.simps [of m])
    next
      case False
      with n "1.prems" have eq: "show_nat (n div 10) = show_nat (m div 10)"
        and d: "digit_char (n mod 10) = digit_char (m mod 10)"
        by (simp_all add: show_nat.simps [of n] show_nat.simps [of m])
      from "1.IH" [OF n eq] have "n div 10 = m div 10" .
      moreover from d have "n mod 10 = m mod 10" by (simp add: digit_char_inj)
      ultimately show ?thesis by (metis div_mult_mod_eq)
    qed
  qed
qed

lemma show_nat_hd: "hd (show_nat n) \<noteq> CHR ''-''"
proof -
  have "hd (show_nat n) \<in> set (show_nat n)" using show_nat_nonempty by simp
  then obtain d where "d < 10" "hd (show_nat n) = digit_char d"
    using show_nat_digits by blast
  then show ?thesis by (simp add: digit_char_not_minus)
qed

lemma show_int_inj: "show_int a = show_int b \<Longrightarrow> a = b"
proof -
  assume eq: "show_int a = show_int b"
  show ?thesis
  proof (cases "a < 0"; cases "b < 0")
    assume "a < 0" "b < 0"
    with eq have "nat (- a) = nat (- b)" by (simp add: show_int_def show_nat_inj)
    with \<open>a < 0\<close> \<open>b < 0\<close> show ?thesis by simp
  next
    assume "a < 0" "\<not> b < 0"
    with eq have "CHR ''-'' # show_nat (nat (- a)) = show_nat (nat b)"
      by (simp add: show_int_def)
    then have "hd (show_nat (nat b)) = CHR ''-''" by (metis list.sel(1))
    with show_nat_hd show ?thesis by blast
  next
    assume "\<not> a < 0" "b < 0"
    with eq have "show_nat (nat a) = CHR ''-'' # show_nat (nat (- b))"
      by (simp add: show_int_def)
    then have "hd (show_nat (nat a)) = CHR ''-''" by (metis list.sel(1))
    with show_nat_hd show ?thesis by blast
  next
    assume "\<not> a < 0" "\<not> b < 0"
    with eq have "nat a = nat b" by (simp add: show_int_def show_nat_inj)
    with \<open>\<not> a < 0\<close> \<open>\<not> b < 0\<close> show ?thesis by simp
  qed
qed

lemma show_int_no_x: "CHR ''x'' \<notin> set (show_int a)"
proof
  assume "CHR ''x'' \<in> set (show_int a)"
  then have "CHR ''x'' \<in> set (show_nat (nat (- a))) \<or> CHR ''x'' \<in> set (show_nat (nat a))"
    by (auto simp: show_int_def split: if_splits)
  then obtain d where "d < 10" "CHR ''x'' = digit_char d"
    using show_nat_digits by blast
  then show False using digit_char_not_x by metis
qed

lemma ordered_key_inj:
  assumes "show_int a @ ''x'' @ show_int b = show_int b @ ''x'' @ show_int a"
  shows "a = b"
proof -
  from assms have "show_int a @ CHR ''x'' # show_int b = show_int b @ CHR ''x'' # show_int a"
    by simp
  then have "show_int a = show_int b"
    using append_Cons_eq_iff [OF show_int_no_x [of a] show_int_no_x [of b]] by blast
  then show ?thesis by (rule show_int_inj)
qed

lemma key_add:
  "canonicalizeProblemKey ''add'' a b =
     ''add:'' @ show_int (min a b) @ ''x'' @ show_int (max a b)"
  unfolding canonicalizeProblemKey_def Let_def by (simp only: simp_thms if_True) simp

lemma key_mul:
  "canonicalizeProblemKey ''mul'' a b =
     ''mul:'' @ show_int (min a b) @ ''x'' @ show_int (max a b)"
  unfolding canonicalizeProblemKey_def Let_def by (simp only: simp_thms if_True) simp

lemma key_sub: "canonicalizeProblemKey ''sub'' a b = ''sub:'' @ show_int a @ ''x'' @ show_int b"
proof -
  have "(''sub'' = ''add'' \<or> ''sub'' = ''mul'') = False" by simp
  then show ?thesis
    unfolding canonicalizeProblemKey_def by (simp only: if_False) simp
qed

lemma key_div: "canonicalizeProblemKey ''div'' a b = ''div:'' @ show_int a @ ''x'' @ show_int b"
proof -
  have "(''div'' = ''add'' \<or> ''div'' = ''mul'') = False" by simp
  then show ?thesis
    unfolding canonicalizeProblemKey_def by (simp only: if_False) simp
qed

text \<open>
  Claim C9.  For addition and multiplication the key does not depend on the order of the
  operands: it is \<open>op:min(a,b)xmax(a,b)\<close>.  For subtraction and division the key is
  \<open>op:axb\<close>, and the two orders of two different operands give two different keys.
\<close>

theorem canonicalizeProblemKey_symmetry:
  "canonicalizeProblemKey ''add'' a b = canonicalizeProblemKey ''add'' b a \<and>
   canonicalizeProblemKey ''add'' a b =
     ''add:'' @ show_int (min a b) @ ''x'' @ show_int (max a b) \<and>
   canonicalizeProblemKey ''mul'' a b = canonicalizeProblemKey ''mul'' b a \<and>
   canonicalizeProblemKey ''mul'' a b =
     ''mul:'' @ show_int (min a b) @ ''x'' @ show_int (max a b) \<and>
   canonicalizeProblemKey ''sub'' a b = ''sub:'' @ show_int a @ ''x'' @ show_int b \<and>
   canonicalizeProblemKey ''div'' a b = ''div:'' @ show_int a @ ''x'' @ show_int b \<and>
   (a \<noteq> b \<longrightarrow>
      canonicalizeProblemKey ''sub'' a b \<noteq> canonicalizeProblemKey ''sub'' b a \<and>
      canonicalizeProblemKey ''div'' a b \<noteq> canonicalizeProblemKey ''div'' b a)"
proof -
  have comm: "canonicalizeProblemKey ''add'' a b = canonicalizeProblemKey ''add'' b a"
    "canonicalizeProblemKey ''mul'' a b = canonicalizeProblemKey ''mul'' b a"
    by (simp_all only: key_add key_mul min.commute [of a b] max.commute [of a b])
  have sub: "a = b" if "canonicalizeProblemKey ''sub'' a b = canonicalizeProblemKey ''sub'' b a"
  proof -
    from that have "''sub:'' @ (show_int a @ ''x'' @ show_int b) =
                    ''sub:'' @ (show_int b @ ''x'' @ show_int a)"
      by (simp only: key_sub)
    then have "show_int a @ ''x'' @ show_int b = show_int b @ ''x'' @ show_int a"
      by (simp only: same_append_eq)
    then show ?thesis by (rule ordered_key_inj)
  qed
  have div: "a = b" if "canonicalizeProblemKey ''div'' a b = canonicalizeProblemKey ''div'' b a"
  proof -
    from that have "''div:'' @ (show_int a @ ''x'' @ show_int b) =
                    ''div:'' @ (show_int b @ ''x'' @ show_int a)"
      by (simp only: key_div)
    then have "show_int a @ ''x'' @ show_int b = show_int b @ ''x'' @ show_int a"
      by (simp only: same_append_eq)
    then show ?thesis by (rule ordered_key_inj)
  qed
  from comm key_add [of a b] key_mul [of a b] key_sub [of a b] key_div [of a b] sub div
  show ?thesis by blast
qed

theorem canonicalizeProblemKey_symmetry_witness:
  "(7 :: int) \<noteq> 3 \<and>
   canonicalizeProblemKey ''add'' 7 3 = canonicalizeProblemKey ''add'' 3 7 \<and>
   canonicalizeProblemKey ''add'' 7 3 = ''add:3x7'' \<and>
   canonicalizeProblemKey ''sub'' 7 3 = ''sub:7x3'' \<and>
   canonicalizeProblemKey ''sub'' 7 3 \<noteq> canonicalizeProblemKey ''sub'' 3 7 \<and>
   canonicalizeProblemKey ''div'' 7 3 \<noteq> canonicalizeProblemKey ''div'' 3 7"
proof -
  have ne: "(7 :: int) \<noteq> 3" by simp
  have v: "canonicalizeProblemKey ''add'' 7 3 = ''add:3x7''"
    "canonicalizeProblemKey ''sub'' 7 3 = ''sub:7x3''"
    by code_simp+
  from canonicalizeProblemKey_symmetry [of 7 3] ne
  have "canonicalizeProblemKey ''add'' 7 3 = canonicalizeProblemKey ''add'' 3 7"
    and "canonicalizeProblemKey ''sub'' 7 3 \<noteq> canonicalizeProblemKey ''sub'' 3 7"
    and "canonicalizeProblemKey ''div'' 7 3 \<noteq> canonicalizeProblemKey ''div'' 3 7"
    by blast+
  with ne v show ?thesis by blast
qed

subsection \<open>On-the-fly generation and the fallback of the selection\<close>

lemmas generateRandomProblem_induct =
  generateRandomProblem.raw_induct [rotated, consumes 1, case_names step]

lemma max_min_eq_iff: "max a b = min a b \<longleftrightarrow> a = (b::int)"
  by (auto simp: max_def min_def)



lemma floor_scale_nonneg: "0 \<le> u \<Longrightarrow> 0 \<le> n \<Longrightarrow> 0 \<le> \<lfloor>u * rat_of_int n\<rfloor>"
  by simp

lemma floor_scale_less:
  assumes "u < 1" "0 < n"
  shows "\<lfloor>u * rat_of_int n\<rfloor> < n"
proof -
  have "u * rat_of_int n < 1 * rat_of_int n"
    using assms by (intro mult_strict_right_mono) simp_all
  then show ?thesis by (simp add: floor_less_iff)
qed



lemma randInt_range:
  assumes "lo \<le> hi" "0 \<le> u" "u < 1"
  shows "lo \<le> randInt lo hi u \<and> randInt lo hi u \<le> hi"
  using floor_scale_nonneg [OF assms(2), of "hi - lo + 1"]
    floor_scale_less [OF assms(3), of "hi - lo + 1"] assms(1)
  unfolding randInt_def by linarith



lemma sub_returns:
  "randInt (minA (operationRanges settings Sub)) (maxA (operationRanges settings Sub))
     (rnd (2 * k))
     \<noteq> randInt (minB (operationRanges settings Sub)) (maxB (operationRanges settings Sub))
         (rnd (Suc (2 * k)))
   \<Longrightarrow> \<exists>p. generateRandomProblem settings Sub rnd = Some p"
proof (induction k arbitrary: rnd)
  case 0
  then show ?case
    by (subst generateRandomProblem.simps) (simp add: Let_def max_min_eq_iff)
next
  case (Suc k)
  have "\<exists>p. generateRandomProblem settings Sub (\<lambda>n. rnd (n + 2)) = Some p"
    using Suc.prems by (intro Suc.IH) (simp add: add.commute)
  then show ?case
    by (subst generateRandomProblem.simps) (auto simp: Let_def max_min_eq_iff)
qed

lemma generateRandomProblem_returns:
  assumes "opn = Sub \<longrightarrow> resample_ends settings rnd"
  shows "\<exists>p. generateRandomProblem settings opn rnd = Some p"
proof (cases opn)
  case Sub
  with assms obtain k where
    "randInt (minA (operationRanges settings Sub)) (maxA (operationRanges settings Sub))
       (rnd (2 * k))
     \<noteq> randInt (minB (operationRanges settings Sub)) (maxB (operationRanges settings Sub))
         (rnd (Suc (2 * k)))"
    by (auto simp: resample_ends_def)
  from sub_returns [OF this] Sub show ?thesis by simp
qed (subst generateRandomProblem.simps, simp add: Let_def)+

text \<open>
  Ranges of subtraction that are not degenerate (each lower bound at most the upper one,
  and not both ranges the same single number) have draws with two different operands.
  With both ranges the same single number every draw is a tie, and the call never returns.
\<close>

lemma randInt_lo: "randInt lo hi 0 = lo"
  by (simp add: randInt_def)

lemma randInt_hi:
  assumes "lo \<le> hi"
  shows "randInt lo hi (rat_of_int (hi - lo) / rat_of_int (hi - lo + 1)) = hi"
proof -
  have "rat_of_int (hi - lo) / rat_of_int (hi - lo + 1) * rat_of_int (hi - lo + 1)
          = rat_of_int (hi - lo)"
    using assms by (simp del: of_int_diff of_int_add)
  then show ?thesis by (simp add: randInt_def del: of_int_diff of_int_add)
qed

lemma nondegenerate_has_draws:
  assumes "loA \<le> hiA" "loB \<le> hiB" "\<not> (loA = hiA \<and> loB = hiB \<and> loA = loB)"
  shows "\<exists>u v. 0 \<le> u \<and> u < 1 \<and> 0 \<le> v \<and> v < 1 \<and> randInt loA hiA u \<noteq> randInt loB hiB v"
proof -
  define top where "top lo hi = rat_of_int (hi - lo) / rat_of_int (hi - lo + 1)" for lo hi :: int
  have top: "0 \<le> top lo hi \<and> top lo hi < 1 \<and> randInt lo hi (top lo hi) = hi"
    if "lo \<le> hi" for lo hi
    using that randInt_hi [OF that] by (simp add: top_def del: of_int_diff of_int_add)
  consider "loA \<noteq> loB" | "loA = loB" "loA \<noteq> hiA" | "loA = loB" "loA = hiA" "loB \<noteq> hiB"
    using assms(3) by blast
  then show ?thesis
  proof cases
    case 1
    then have "randInt loA hiA 0 \<noteq> randInt loB hiB 0" by (simp add: randInt_lo)
    then show ?thesis by (intro exI [of _ 0]) simp
  next
    case 2
    then have "randInt loA hiA (top loA hiA) \<noteq> randInt loB hiB 0"
      using top [OF assms(1)] by (simp add: randInt_lo)
    with top [OF assms(1)] show ?thesis
      by (intro exI [of _ "top loA hiA"] exI [of _ 0]) simp
  next
    case 3
    then have "randInt loA hiA 0 \<noteq> randInt loB hiB (top loB hiB)"
      using top [OF assms(2)] by (simp add: randInt_lo)
    with top [OF assms(2)] show ?thesis
      by (intro exI [of _ 0] exI [of _ "top loB hiB"]) simp
  qed
qed

lemma degenerate_never_returns:
  assumes gen: "generateRandomProblem settings opn rnd = Some p"
    and "opn = Sub"
    and "minA (operationRanges settings Sub) = c" "maxA (operationRanges settings Sub) = c"
    and "minB (operationRanges settings Sub) = c" "maxB (operationRanges settings Sub) = c"
    and "\<forall>n. 0 \<le> rnd n \<and> rnd n < 1"
  shows False
  using assms
proof (induct rule: generateRandomProblem_induct)
  case (step gen settings opn rnd p)
  have tie: "randInt c c (rnd 0) = randInt c c (rnd 1)"
    using randInt_range [of c c "rnd 0"] randInt_range [of c c "rnd 1"] step(8) by simp
  with step(2,3,4,5,6,7) have "gen settings Sub (\<lambda>n. rnd (n + 2)) = Some p"
    by (simp add: Let_def)
  from step(1) [OF this] step(4,5,6,7,8) show False by simp
qed

text \<open>
  Claim C8.  \<^verbatim>\<open>selectNextProblem\<close> returns \<^verbatim>\<open>null\<close> exactly when no operation is
  enabled.  When an operation is enabled and no candidate is left, it returns the problem
  that \<^verbatim>\<open>generateRandomProblem\<close> generates for one of the enabled operations, provided the
  resampling of a subtraction ends (the random source is in \<open>[0, 1)\<close> and has a pair of
  draws that differ, which ranges that are not degenerate allow).
\<close>

theorem selectNextProblem_null_iff:
  "(selectNextProblem settings pool persisted today rnd atts phase = Some Null
      \<longleftrightarrow> enabledOps settings = []) \<and>
   (enabledOps settings \<noteq> [] \<and> poolCandidates settings pool persisted = [] \<and>
    0 \<le> rnd 0 \<and> rnd 0 < 1 \<and> resample_ends settings (\<lambda>n. rnd (n + 1)) \<longrightarrow>
    (\<exists>opn p. opn \<in> set (enabledOps settings) \<and>
        generateRandomProblem settings opn (\<lambda>n. rnd (n + 1)) = Some p \<and>
        selectNextProblem settings pool persisted today rnd atts phase = Some (Prob p)))"
proof -
  have null: "selectNextProblem settings pool persisted today rnd atts phase = Some Null
      \<longleftrightarrow> enabledOps settings = []"
    by (auto simp: selectNextProblem_def Let_def split: option.splits)
  have fallback: "\<exists>opn p. opn \<in> set (enabledOps settings) \<and>
        generateRandomProblem settings opn (\<lambda>n. rnd (n + 1)) = Some p \<and>
        selectNextProblem settings pool persisted today rnd atts phase = Some (Prob p)"
    if ne: "enabledOps settings \<noteq> []" and empty: "poolCandidates settings pool persisted = []"
      and u: "0 \<le> rnd 0" "rnd 0 < 1" and ends: "resample_ends settings (\<lambda>n. rnd (n + 1))"
  proof -
    define n where "n = length (enabledOps settings)"
    define i where "i = \<lfloor>rnd 0 * rat_of_int (int n)\<rfloor>"
    have "0 < int n" using ne by (simp add: n_def)
    from floor_scale_less [OF u(2) this] have i1: "i < int n" by (simp add: i_def)
    from floor_scale_nonneg [OF u(1), of "int n"] have i0: "0 \<le> i" by (simp add: i_def)
    have i: "\<lfloor>rnd 0 * of_nat (length (enabledOps settings))\<rfloor> = i"
      by (simp add: i_def n_def)
    define opn where "opn = enabledOps settings ! nat i"
    have "nat i < length (enabledOps settings)" using i0 i1 unfolding n_def by linarith
    then have mem: "opn \<in> set (enabledOps settings)" unfolding opn_def by (rule nth_mem)
    obtain p where p: "generateRandomProblem settings opn (\<lambda>n. rnd (n + 1)) = Some p"
      using generateRandomProblem_returns [of opn settings "\<lambda>n. rnd (n + 1)"] ends by blast
    have "selectNextProblem settings pool persisted today rnd atts phase = Some (Prob p)"
      unfolding selectNextProblem_def Let_def i
      using ne empty i0 i1 p by (simp add: opn_def n_def)
    with mem p show ?thesis by blast
  qed
  from null fallback show ?thesis by blast
qed

theorem selectNextProblem_null_iff_witness:
  "enabledOps DEFAULT_SETTINGS \<noteq> [] \<and> poolCandidates DEFAULT_SETTINGS [] [] = [] \<and>
   0 \<le> quarter_rnd 0 \<and> quarter_rnd 0 < 1 \<and>
   resample_ends DEFAULT_SETTINGS (\<lambda>n. quarter_rnd (n + 1)) \<and>
   selectNextProblem DEFAULT_SETTINGS [] [] 20000 quarter_rnd [] ''core'' \<noteq> Some Null \<and>
   (\<exists>opn p. opn \<in> set (enabledOps DEFAULT_SETTINGS) \<and>
      generateRandomProblem DEFAULT_SETTINGS opn (\<lambda>n. quarter_rnd (n + 1)) = Some p \<and>
      selectNextProblem DEFAULT_SETTINGS [] [] 20000 quarter_rnd [] ''core'' = Some (Prob p))"
proof -
  have ne: "enabledOps DEFAULT_SETTINGS \<noteq> []" by code_simp
  have empty: "poolCandidates DEFAULT_SETTINGS [] [] = []" by (simp add: poolCandidates_def)
  have u: "0 \<le> quarter_rnd 0" "quarter_rnd 0 < 1" by (simp_all add: quarter_rnd_def)
  have "randInt (minA (operationRanges DEFAULT_SETTINGS Sub))
          (maxA (operationRanges DEFAULT_SETTINGS Sub)) (quarter_rnd (2 * 0 + 1))
        \<noteq> randInt (minB (operationRanges DEFAULT_SETTINGS Sub))
            (maxB (operationRanges DEFAULT_SETTINGS Sub)) (quarter_rnd (2 * 0 + 1 + 1))"
    by code_simp
  then have ends: "resample_ends DEFAULT_SETTINGS (\<lambda>n. quarter_rnd (n + 1))"
    unfolding resample_ends_def by (intro exI [of _ 0])
  from selectNextProblem_null_iff
    [of DEFAULT_SETTINGS "[]" "[]" 20000 quarter_rnd "[]" "''core''"] ne empty u ends
  have "selectNextProblem DEFAULT_SETTINGS [] [] 20000 quarter_rnd [] ''core'' \<noteq> Some Null"
    and "\<exists>opn p. opn \<in> set (enabledOps DEFAULT_SETTINGS) \<and>
      generateRandomProblem DEFAULT_SETTINGS opn (\<lambda>n. quarter_rnd (n + 1)) = Some p \<and>
      selectNextProblem DEFAULT_SETTINGS [] [] 20000 quarter_rnd [] ''core'' = Some (Prob p)"
    by blast+
  with ne empty u ends show ?thesis by blast
qed

end
